theory Spec2Isabelle
  imports Main "HOL-Library.Word"
begin

section \<open>Shared data: bytes, words, status codes\<close>

type_synonym u8 = "8 word"
type_synonym uint256 = "256 word"

text \<open>
  The status codes of the result (the list of section 6 of the specification; the
  enumeration itself belongs to the EVMC headers).
\<close>

datatype evmc_status_code =
    EVMC_SUCCESS
  | EVMC_FAILURE
  | EVMC_REVERT
  | EVMC_OUT_OF_GAS
  | EVMC_INVALID_INSTRUCTION
  | EVMC_UNDEFINED_INSTRUCTION
  | EVMC_STACK_OVERFLOW
  | EVMC_STACK_UNDERFLOW
  | EVMC_BAD_JUMP_DESTINATION
  | EVMC_INVALID_MEMORY_ACCESS
  | EVMC_CALL_DEPTH_EXCEEDED
  | EVMC_STATIC_MODE_VIOLATION
  | EVMC_PRECOMPILE_FAILURE
  | EVMC_CONTRACT_VALIDATION_FAILURE
  | EVMC_ARGUMENT_OUT_OF_RANGE
  | EVMC_INSUFFICIENT_BALANCE
  | EVMC_INTERNAL_ERROR

text \<open>
  C++ has no checked indexing on the containers used here: an index outside a vector is
  undefined behaviour. The model makes each such access a value of its own.
\<close>

datatype fault =
    StackIndexOutOfRange
  | MemoryOutOfRange
  | CodeOutOfRange
  | UninitialisedRead
  | Unreachable

text \<open>
  The opcode bytes that the analysis and the examples name. The names are declared by
  the EVMC headers; the values are those of the EVM, as the scenarios of the
  specification spell them (\<open>00\<close> STOP, \<open>56\<close> JUMP, \<open>5B\<close> JUMPDEST, \<open>60\<close> PUSH1,
  \<open>7F\<close> PUSH32), and \<open>analyze\<close> asserts that \<open>OP_PUSH32\<close> is the largest \<open>int8_t\<close>.
\<close>

definition OP_STOP :: u8 where "OP_STOP = 0x00"
definition OP_JUMP :: u8 where "OP_JUMP = 0x56"
definition OP_JUMPDEST :: u8 where "OP_JUMPDEST = 0x5b"
definition OP_PUSH1 :: u8 where "OP_PUSH1 = 0x60"
definition OP_PUSH32 :: u8 where "OP_PUSH32 = 0x7f"

section \<open>Execution state\<close>

text \<open>
  The fields of the baseline \<open>ExecutionState\<close> that \<open>baseline.cpp\<close> reads and writes.
  The stack is a vector whose last element is the top. The record is extensible: the
  rest of the state (message, host, return data) lives in the extension and is passed
  through untouched by the code modelled here.

  The prototype's \<open>execution_state\<close> of \<open>execution.cpp\<close> has fields of the same names and
  three more (\<open>run\<close>, \<open>pc\<close>, \<open>memory_prev_cost\<close>); it is declared as an extension so that
  both keep the names of the source. \<open>gas_left\<close> and \<open>memory_prev_cost\<close> are \<open>int64_t\<close>:
  they are integers here, the code never brings them near the 64-bit bounds (gas is
  charged from a non-negative budget, a memory cost is below \<open>2 ^ 57\<close>).
\<close>

record ExecutionState =
  gas_left :: int
  stack :: "uint256 list"
  memory :: "u8 list"
  status :: evmc_status_code
  output_offset :: nat
  output_size :: nat

record execution_state = ExecutionState +
  run :: bool
  pc :: nat
  memory_prev_cost :: int

section \<open>The prototype interpreter (execution.cpp)\<close>

text \<open>\<open>std::vector::resize\<close>: cut, or extend with zero bytes.\<close>

definition resize :: "nat \<Rightarrow> u8 list \<Rightarrow> u8 list" where
  "resize n xs = take n xs @ replicate (n - length xs) 0"

text \<open>
  \<open>check_memory\<close>: the pair is the returned flag and the state after the call.
  \<open>limit\<close> is \<open>uint32_t(-1)\<close>. Past the limit test both operands are below \<open>2 ^ 32\<close>, so
  the casts to \<open>int64_t\<close> keep their values and \<open>/\<close> divides non-negative numbers.
\<close>

definition check_memory ::
  "execution_state \<Rightarrow> uint256 \<Rightarrow> uint256 \<Rightarrow> bool \<times> execution_state" where
  "check_memory state offset sz =
    (if sz = 0 then (True, state)
     else
       let limit = (0xFFFFFFFF :: uint256) in
       if limit < offset \<or> limit < sz then
         (False, state\<lparr>status := EVMC_OUT_OF_GAS, run := False\<rparr>)
       else
         let ofs = uint offset;
             s = uint sz;
             m = int (length (memory state));
             new_size = ofs + s
         in
         if m < s then
           let w = (new_size + 31) div 32;
               new_cost = 3 * w + w * w div 512;
               cost = new_cost - memory_prev_cost state;
               state1 = state\<lparr>memory_prev_cost := new_cost\<rparr>;
               state2 = state1\<lparr>gas_left := gas_left state1 - cost\<rparr>
           in
           if gas_left state2 < 0 then
             (False, state2\<lparr>status := EVMC_OUT_OF_GAS, run := False\<rparr>)
           else
             (True, state2\<lparr>memory := resize (nat new_size) (memory state2)\<rparr>)
         else (True, state))"

text \<open>
  Modelled from the spec: the stack accessor \<open>state.item(i)\<close>, declared in
  \<open>execution.hpp\<close> and not part of \<open>execution.cpp\<close>. It is the \<open>i\<close>-th word from the top
  of the operand stack: \<open>op_add\<close> adds \<open>item(0)\<close> to \<open>item(1)\<close> and pops once, and MSTORE
  takes its offset from the top and its value from below.
\<close>

definition item :: "execution_state \<Rightarrow> nat \<Rightarrow> uint256" where
  "item state i = stack state ! (length (stack state) - 1 - i)"

text \<open>\<open>intx::be::store\<close>: the 32 bytes of a word, most significant first.\<close>

definition be_bytes :: "uint256 \<Rightarrow> u8 list" where
  "be_bytes x = map (\<lambda>k. ucast (drop_bit (8 * (31 - k)) x)) [0..<32]"

definition store_at :: "nat \<Rightarrow> u8 list \<Rightarrow> u8 list \<Rightarrow> u8 list" where
  "store_at i bs mem = take i mem @ bs @ drop (i + length bs) mem"

text \<open>
  \<open>op_mstore\<close>. Reading \<open>item(1)\<close> needs two stack items and the store needs the 32
  bytes at \<open>index\<close> inside the vector; the code checks neither, so both are faults here.
\<close>

definition op_mstore :: "execution_state \<Rightarrow> fault + execution_state" where
  "op_mstore state =
    (if length (stack state) < 2 then Inl StackIndexOutOfRange
     else
       let index = item state 0;
           x = item state 1;
           (ok, state1) = check_memory state index 32
       in
       if \<not> ok then Inr state1
       else if length (memory state1) < unat index + 32 then Inl MemoryOutOfRange
       else
         Inr (state1\<lparr>memory := store_at (unat index) (be_bytes x) (memory state1),
                      stack := butlast (butlast (stack state1))\<rparr>))"

text \<open>
  Modelled from the spec: the state at the start of the prototype's \<open>execute\<close>, a
  default-constructed \<open>execution_state\<close> (its defaults are in \<open>execution.hpp\<close>) whose
  \<open>gas_left\<close> is set to the gas of the call: the loop runs, the position is 0, stack and
  memory are empty, nothing has been paid for memory, the status is success.
\<close>

definition initial_state :: "int \<Rightarrow> execution_state" where
  "initial_state gas =
    \<lparr>gas_left = gas, stack = [], memory = [], status = EVMC_SUCCESS,
     output_offset = 0, output_size = 0, run = True, pc = 0, memory_prev_cost = 0\<rparr>"

text \<open>
  The per-block requirements of the interpreter loop of the prototype's \<open>execute\<close>, taken
  when the instruction at \<open>pc\<close> starts a block: the body of
  \<open>if (instr.block_index >= 0)\<close>. The flag is False where the loop leaves with \<open>break\<close>.
  The block comes from the prototype's analysis, which is not part of the sources at
  hand: the loop reads its gas cost, the stack height it requires and the most it adds
  to the stack, and these are the fields here.
\<close>

record block_info =
  gas_cost_blk :: int
  stack_req :: int
  stack_max :: int

definition check_block :: "block_info \<Rightarrow> execution_state \<Rightarrow> bool \<times> execution_state" where
  "check_block block state =
    (let state1 = state\<lparr>gas_left := gas_left state - gas_cost_blk block\<rparr> in
     if gas_left state1 \<le> 0 then (False, state1\<lparr>status := EVMC_OUT_OF_GAS\<rparr>)
     else if int (length (stack state1)) < stack_req block then
       (False, state1\<lparr>status := EVMC_STACK_UNDERFLOW\<rparr>)
     else if int (length (stack state1)) + stack_max block > 1024 then
       (False, state1\<lparr>status := EVMC_STACK_OVERFLOW\<rparr>)
     else (True, state1))"

section \<open>Result assembly\<close>

text \<open>
  The fields of \<open>evmc_result\<close> that the two \<open>execute\<close> functions fill. The output is read
  from memory through a raw pointer; a range outside the memory is a fault.
\<close>

record evmc_result =
  status_code :: evmc_status_code
  gas_left_res :: int
  output_data :: "fault + u8 list"
  output_size_res :: nat

definition read_memory :: "u8 list \<Rightarrow> nat \<Rightarrow> nat \<Rightarrow> fault + u8 list" where
  "read_memory mem off n =
    (if off + n \<le> length mem then Inr (take n (drop off mem)) else Inl MemoryOutOfRange)"

text \<open>
  The end of the prototype's \<open>execute\<close>: the result starts zero-initialised, the gas is
  copied for two statuses only, the output only when its size is positive.
\<close>

definition prototype_result :: "execution_state \<Rightarrow> evmc_result" where
  "prototype_result state =
    (let result = \<lparr>status_code = EVMC_SUCCESS, gas_left_res = 0, output_data = Inr [],
                   output_size_res = 0\<rparr>;
         result1 = result\<lparr>status_code := status state\<rparr>;
         result2 = (if status state = EVMC_SUCCESS \<or> status state = EVMC_REVERT
                    then result1\<lparr>gas_left_res := gas_left state\<rparr> else result1)
     in
     if output_size state > 0 then
       result2\<lparr>output_size_res := output_size state,
               output_data := read_memory (memory state) (output_offset state) (output_size state)\<rparr>
     else result2)"

text \<open>
  The \<open>exit\<close> label of the baseline \<open>execute\<close>: \<open>evmc::make_result\<close> copies the given
  number of bytes from the given pointer, and nothing from a null pointer.
\<close>

definition baseline_result :: "'a ExecutionState_scheme \<Rightarrow> evmc_result" where
  "baseline_result state =
    (let gas = (if status state = EVMC_SUCCESS \<or> status state = EVMC_REVERT
                      then gas_left state else 0)
     in
     \<lparr>status_code = status state, gas_left_res = gas,
      output_data = (if output_size state \<noteq> 0
                     then read_memory (memory state) (output_offset state) (output_size state)
                     else Inr []),
      output_size_res = output_size state\<rparr>)"

section \<open>The baseline interpreter: requirements of one instruction (baseline.cpp)\<close>

text \<open>
  Modelled from the spec: an entry of the instruction table, whose type is declared in
  a header (section 4.2 of the specification): the base gas cost or a sentinel
  ``undefined'', the stack height required and the flag of an instruction that can grow
  the stack. The table itself is a parameter of everything below, one entry for each
  opcode byte.
\<close>

record InstructionMetrics =
  gas_cost :: int
  stack_height_required :: int
  can_overflow_stack :: bool

type_synonym InstructionTable = "u8 \<Rightarrow> InstructionMetrics"

text \<open>
  Modelled from the spec: the sentinel \<open>instr::undefined\<close>. The specification does not
  give its value; it is no gas cost, and nothing proved below depends on which.
\<close>

definition instr_undefined :: int where
  "instr_undefined = - 1"

text \<open>Modelled from the spec: \<open>Stack::limit\<close>, the bound 1024 of the operand stack.\<close>

definition Stack_limit :: nat where
  "Stack_limit = 1024"

text \<open>\<open>check_requirements\<close>: the status returned and the state with the gas charged.\<close>

definition check_requirements ::
  "InstructionTable \<Rightarrow> 'a ExecutionState_scheme \<Rightarrow> u8
    \<Rightarrow> evmc_status_code \<times> 'a ExecutionState_scheme" where
  "check_requirements instruction_table state op =
    (let metrics = instruction_table op in
     if gas_cost metrics = instr_undefined then (EVMC_UNDEFINED_INSTRUCTION, state)
     else
       let state1 = state\<lparr>gas_left := gas_left state - gas_cost metrics\<rparr> in
       if gas_left state1 < 0 then (EVMC_OUT_OF_GAS, state1)
       else
         let stack_size = length (stack state1) in
         if stack_size = Stack_limit then
           (if can_overflow_stack metrics then (EVMC_STACK_OVERFLOW, state1)
            else (EVMC_SUCCESS, state1))
         else if int stack_size < stack_height_required metrics then
           (EVMC_STACK_UNDERFLOW, state1)
         else (EVMC_SUCCESS, state1))"

section \<open>Code analysis (baseline.cpp)\<close>

text \<open>
  The scan of \<open>analyze\<close>: the index \<open>i\<close> and the bitmap are the loop's variables, the
  result is their value when the loop ends. The test for a PUSH opcode is the signed
  comparison of the source, \<open>static_cast<int8_t>(op) >= OP_PUSH1\<close>.
\<close>

function analyze_loop :: "u8 list \<Rightarrow> nat \<Rightarrow> bool list \<Rightarrow> nat \<times> bool list" where
  "analyze_loop code i jdmap =
    (if i < length code then
       let op = code ! i in
       if sint OP_PUSH1 \<le> sint op then
         analyze_loop code (i + (unat op - (unat OP_PUSH1 - 1)) + 1) jdmap
       else if op = OP_JUMPDEST then analyze_loop code (i + 1) (jdmap[i := True])
       else analyze_loop code (i + 1) jdmap
     else (i, jdmap))"
  by pat_completeness auto
termination
  by (relation "measure (\<lambda>(code, i, jdmap). length code - i)") auto

declare analyze_loop.simps [simp del]

text \<open>
  The padded code is allocated with a raw \<open>new uint8_t[i + 1]\<close>, which leaves the bytes
  uninitialised: an element is \<open>None\<close> until something is written to it. Then the code
  is copied to the front and two STOP bytes are written, at \<open>code_size\<close> and at \<open>i\<close>.
  The scan never ends before \<open>code_size\<close> (\<open>scan_end_bounds\<close> below), so the copy and both
  writes stay inside the buffer.
\<close>

record CodeAnalysis =
  padded_code :: "u8 option list"
  jumpdest_map :: "bool list"

definition copy_n :: "u8 list \<Rightarrow> u8 option list \<Rightarrow> u8 option list" where
  "copy_n src dst = map Some src @ drop (length src) dst"

definition analyze :: "u8 list \<Rightarrow> CodeAnalysis" where
  "analyze code =
    (let code_size = length code;
         (i, jdmap) = analyze_loop code 0 (replicate code_size False);
         padded0 = replicate (i + 1) None;
         padded1 = copy_n code padded0;
         padded2 = padded1[code_size := Some OP_STOP];
         padded3 = padded2[i := Some OP_STOP]
     in \<lparr>padded_code = padded3, jumpdest_map = jdmap\<rparr>)"

text \<open>The value of \<open>i\<close> after the scan: the length of the padded code is one more.\<close>

definition scan_end :: "u8 list \<Rightarrow> nat" where
  "scan_end code = fst (analyze_loop code 0 (replicate (length code) False))"

text \<open>
  Modelled from the spec: the query of the bitmap made by JUMP and JUMPI, which is part
  of the instruction implementations and not of \<open>baseline.cpp\<close>. The specification has
  the target verified as \<open>target < code_size\<close> and \<open>bitmap[target]\<close> set.
\<close>

definition check_jumpdest :: "CodeAnalysis \<Rightarrow> nat \<Rightarrow> bool" where
  "check_jumpdest analysis target =
    (target < length (jumpdest_map analysis) \<and> jumpdest_map analysis ! target)"

text \<open>
  Modelled from the spec: the state that the entry point \<open>execute\<close> creates from the
  message (the constructor is in \<open>execution_state.hpp\<close>): the gas of the message, an empty
  stack and memory, status success, no output.
\<close>

definition new_state :: "int \<Rightarrow> ExecutionState" where
  "new_state gas =
    \<lparr>gas_left = gas, stack = [], memory = [], status = EVMC_SUCCESS,
     output_offset = 0, output_size = 0\<rparr>"

section \<open>The baseline interpreter: the dispatch loop (baseline.cpp)\<close>

text \<open>
  The \<open>switch\<close> of \<open>execute\<close> calls the instruction routines in six ways:
  \<^item> a routine that returns nothing, followed by \<open>DISPATCH_NEXT\<close>;
  \<^item> a routine that returns a status: the loop leaves on a status other than success,
    otherwise \<open>DISPATCH_NEXT\<close>;
  \<^item> a routine that returns a stop token: the loop leaves with the token's status;
  \<^item> \<open>jump\<close> and \<open>jumpi\<close>, which return a status and a position;
  \<^item> \<open>pc\<close>, which returns a position;
  \<^item> \<open>push<N>\<close>, which returns a position.
  \<open>instr_kind\<close> is the case analysis of the \<open>switch\<close> by opcode byte (the byte values
  are those of the EVM: \<open>0x00\<close> STOP, \<open>0x01\<close> to \<open>0x09\<close> ADD to MULMOD, \<open>0x0a\<close> EXP,
  \<open>0x0b\<close> SIGNEXTEND, \<open>0x10\<close> to \<open>0x1d\<close> LT to SAR, \<open>0x20\<close> KECCAK256,
  \<open>0x30\<close> to \<open>0x3f\<close> ADDRESS to EXTCODEHASH, \<open>0x40\<close> to \<open>0x48\<close> BLOCKHASH to BASEFEE,
  \<open>0x50\<close> to \<open>0x5b\<close> POP to JUMPDEST, \<open>0x60\<close> to \<open>0x7f\<close> PUSH1 to PUSH32,
  \<open>0x80\<close> to \<open>0x8f\<close> DUP, \<open>0x90\<close> to \<open>0x9f\<close> SWAP, \<open>0xa0\<close> to \<open>0xa4\<close> LOG,
  \<open>0xf0\<close> CREATE, \<open>0xf1\<close> CALL, \<open>0xf2\<close> CALLCODE, \<open>0xf3\<close> RETURN, \<open>0xf4\<close> DELEGATECALL,
  \<open>0xf5\<close> CREATE2, \<open>0xfa\<close> STATICCALL, \<open>0xfd\<close> REVERT, \<open>0xfe\<close> INVALID,
  \<open>0xff\<close> SELFDESTRUCT). The cases written with \<open>INSTR_IMPL\<close> take the way of the
  \<open>invoke\<close> overload that their routine selects: that of \<open>add\<close> for the arithmetic
  routines, that of \<open>exp\<close> for EXP, that of \<open>stop\<close> for the five terminating routines.
  An opcode without a case reaches \<open>default: INTX_UNREACHABLE()\<close>.
\<close>

datatype instr_kind = K_void | K_status | K_stop | K_jump | K_pc | K_push nat

definition instr_kind :: "u8 \<Rightarrow> instr_kind option" where
  "instr_kind op =
    (if op = 0x00 \<or> op = 0xf3 \<or> op = 0xfd \<or> op = 0xfe \<or> op = 0xff then Some K_stop
     else if 0x60 \<le> op \<and> op \<le> 0x7f then Some (K_push (unat op - 0x5f))
     else if op = 0x56 \<or> op = 0x57 then Some K_jump
     else if op = 0x58 then Some K_pc
     else if op = 0x0a \<or> op = 0x20 \<or> op = 0x31 \<or> op = 0x37 \<or> op = 0x39
          \<or> op = 0x3b \<or> op = 0x3c \<or> op = 0x3e \<or> op = 0x3f
          \<or> (0x51 \<le> op \<and> op \<le> 0x55) \<or> (0xa0 \<le> op \<and> op \<le> 0xa4)
          \<or> op = 0xf0 \<or> op = 0xf1 \<or> op = 0xf2 \<or> op = 0xf4 \<or> op = 0xf5 \<or> op = 0xfa
       then Some K_status
     else if (0x01 \<le> op \<and> op \<le> 0x09) \<or> op = 0x0b \<or> (0x10 \<le> op \<and> op \<le> 0x1d)
          \<or> op = 0x30 \<or> (0x32 \<le> op \<and> op \<le> 0x36) \<or> op = 0x38 \<or> op = 0x3a \<or> op = 0x3d
          \<or> (0x40 \<le> op \<and> op \<le> 0x48) \<or> op = 0x50 \<or> op = 0x59 \<or> op = 0x5a \<or> op = 0x5b
          \<or> (0x80 \<le> op \<and> op \<le> 0x9f)
       then Some K_void
     else None)"

text \<open>
  The instruction routines are defined in \<open>instructions.hpp\<close>; they are parameters of
  the loop, one family for each way of calling. A routine gets the state (and the
  position where the source passes it) and returns what the source returns together
  with the state it leaves.
\<close>

record 's Instructions =
  instr_void :: "u8 \<Rightarrow> 's \<Rightarrow> 's"
  instr_status :: "u8 \<Rightarrow> 's \<Rightarrow> evmc_status_code \<times> 's"
  instr_stop :: "u8 \<Rightarrow> 's \<Rightarrow> evmc_status_code \<times> 's"
  instr_jump :: "u8 \<Rightarrow> 's \<Rightarrow> nat \<Rightarrow> (evmc_status_code \<times> nat) \<times> 's"
  instr_pc :: "'s \<Rightarrow> nat \<Rightarrow> nat \<times> 's"
  instr_push :: "nat \<Rightarrow> 's \<Rightarrow> nat \<Rightarrow> nat \<times> 's"

text \<open>
  \<open>*code_it\<close>: the loop reads the padded code without a bounds check. A position
  outside the buffer and a byte that was never written are faults.
\<close>

definition fetch :: "u8 option list \<Rightarrow> nat \<Rightarrow> fault + u8" where
  "fetch padded pos =
    (if pos < length padded then
       (case padded ! pos of None \<Rightarrow> Inl UninitialisedRead | Some op \<Rightarrow> Inr op)
     else Inl CodeOutOfRange)"

text \<open>
  The loop of \<open>execute\<close>, from a position in the padded code (the tracing calls, which
  only observe, are left out). It returns the state at the \<open>exit\<close> label, or a fault;
  \<open>None\<close> is a loop that never leaves.
\<close>

partial_function (option) dispatch_loop ::
  "InstructionTable \<Rightarrow> ('a ExecutionState_scheme) Instructions \<Rightarrow> CodeAnalysis \<Rightarrow> nat
    \<Rightarrow> 'a ExecutionState_scheme \<Rightarrow> (fault + 'a ExecutionState_scheme) option" where
  "dispatch_loop instruction_table fns analysis pos state =
    (case fetch (padded_code analysis) pos of
       Inl f \<Rightarrow> Some (Inl f)
     | Inr op \<Rightarrow>
        (case check_requirements instruction_table state op of
           (status0, state1) \<Rightarrow>
             if status0 \<noteq> EVMC_SUCCESS then Some (Inr (state1\<lparr>status := status0\<rparr>))
             else
               (case instr_kind op of
                  None \<Rightarrow> Some (Inl Unreachable)
                | Some K_void \<Rightarrow>
                    dispatch_loop instruction_table fns analysis (pos + 1)
                      (instr_void fns op state1)
                | Some K_status \<Rightarrow>
                    (case instr_status fns op state1 of
                       (st_code, state2) \<Rightarrow>
                         if st_code \<noteq> EVMC_SUCCESS
                         then Some (Inr (state2\<lparr>status := st_code\<rparr>))
                         else dispatch_loop instruction_table fns analysis (pos + 1) state2)
                | Some K_stop \<Rightarrow>
                    (case instr_stop fns op state1 of
                       (token_status, state2) \<Rightarrow> Some (Inr (state2\<lparr>status := token_status\<rparr>)))
                | Some K_jump \<Rightarrow>
                    (case instr_jump fns op state1 pos of
                       ((r_status, r_pc), state2) \<Rightarrow>
                         if r_status \<noteq> EVMC_SUCCESS
                         then Some (Inr (state2\<lparr>status := r_status\<rparr>))
                         else dispatch_loop instruction_table fns analysis r_pc state2)
                | Some K_pc \<Rightarrow>
                    (case instr_pc fns state1 pos of
                       (r_pc, state2) \<Rightarrow>
                         dispatch_loop instruction_table fns analysis r_pc state2)
                | Some (K_push n) \<Rightarrow>
                    (case instr_push fns n state1 pos of
                       (r_pc, state2) \<Rightarrow>
                         dispatch_loop instruction_table fns analysis r_pc state2))))"

declare dispatch_loop.simps [code]


text \<open>
  One turn of the loop, apart: the outcome with which the loop leaves, or the position
  and state of the next turn. \<open>dispatch_loop_step\<close> below shows that the loop is this
  turn repeated.
\<close>

definition dispatch_step ::
  "InstructionTable \<Rightarrow> ('a ExecutionState_scheme) Instructions \<Rightarrow> CodeAnalysis \<Rightarrow> nat
    \<Rightarrow> 'a ExecutionState_scheme
    \<Rightarrow> (fault + 'a ExecutionState_scheme) + (nat \<times> 'a ExecutionState_scheme)" where
  "dispatch_step instruction_table fns analysis pos state =
    (case fetch (padded_code analysis) pos of
       Inl f \<Rightarrow> Inl (Inl f)
     | Inr op \<Rightarrow>
        (case check_requirements instruction_table state op of
           (status0, state1) \<Rightarrow>
             if status0 \<noteq> EVMC_SUCCESS then Inl (Inr (state1\<lparr>status := status0\<rparr>))
             else
               (case instr_kind op of
                  None \<Rightarrow> Inl (Inl Unreachable)
                | Some K_void \<Rightarrow> Inr (pos + 1, instr_void fns op state1)
                | Some K_status \<Rightarrow>
                    (case instr_status fns op state1 of
                       (st_code, state2) \<Rightarrow>
                         if st_code \<noteq> EVMC_SUCCESS
                         then Inl (Inr (state2\<lparr>status := st_code\<rparr>))
                         else Inr (pos + 1, state2))
                | Some K_stop \<Rightarrow>
                    (case instr_stop fns op state1 of
                       (token_status, state2) \<Rightarrow> Inl (Inr (state2\<lparr>status := token_status\<rparr>)))
                | Some K_jump \<Rightarrow>
                    (case instr_jump fns op state1 pos of
                       ((r_status, r_pc), state2) \<Rightarrow>
                         if r_status \<noteq> EVMC_SUCCESS
                         then Inl (Inr (state2\<lparr>status := r_status\<rparr>))
                         else Inr (r_pc, state2))
                | Some K_pc \<Rightarrow> Inr (instr_pc fns state1 pos)
                | Some (K_push n) \<Rightarrow> Inr (instr_push fns n state1 pos))))"

section \<open>What the loop takes from the table and from the routines\<close>

text \<open>
  Modelled from the spec: the instruction table and the instruction routines, which are
  not part of \<open>baseline.cpp\<close>, as far as the position of the loop depends on them. The
  loop has a case for every opcode that the table defines (the source marks the default
  case unreachable); a base gas cost is not negative; and the routines follow the
  advancement rule (section 4.3): PC advances by 1, PUSH\<open>n\<close> sets the position to
  \<open>pc + 1 + n\<close>, JUMP and JUMPI succeed only at a target that the bitmap accepts (JUMPI
  may also fall through to \<open>pc + 1\<close>).
\<close>

definition advancement_contract ::
  "InstructionTable \<Rightarrow> ('a ExecutionState_scheme) Instructions \<Rightarrow> CodeAnalysis \<Rightarrow> bool" where
  "advancement_contract instruction_table fns analysis \<longleftrightarrow>
     (\<forall>op. gas_cost (instruction_table op) \<noteq> instr_undefined \<longrightarrow>
        instr_kind op \<noteq> None \<and> 0 \<le> gas_cost (instruction_table op))
   \<and> (\<forall>s pos. fst (instr_pc fns s pos) = pos + 1)
   \<and> (\<forall>n s pos. fst (instr_push fns n s pos) = pos + n + 1)
   \<and> (\<forall>op s pos. fst (fst (instr_jump fns op s pos)) = EVMC_SUCCESS \<longrightarrow>
         snd (fst (instr_jump fns op s pos)) = pos + 1
         \<or> check_jumpdest analysis (snd (fst (instr_jump fns op s pos))))"

text \<open>
  The loop itself bounds nothing of what a routine, or the host behind it, does to the
  gas. \<open>gas_decreases\<close> is the hypothesis on the gas under which the loop is shown to
  return; it is a condition on the routines, not a property of the loop and not a
  sentence of the specification, whose section 8 says only that \<open>gas_left\<close> never
  increases. It says that a turn of the loop that goes on leaves \<open>gas_left\<close> strictly
  lower than it found it, the base charge and the routine taken together: a routine
  whose table entry costs nothing must charge something itself, and a sub-call must not
  get back from the host more gas than the turn has charged. \<open>charged\<close> is the state
  that \<open>check_requirements\<close> hands to the routine.
\<close>

definition charged ::
  "InstructionTable \<Rightarrow> u8 \<Rightarrow> 'a ExecutionState_scheme \<Rightarrow> 'a ExecutionState_scheme" where
  "charged instruction_table op s = s\<lparr>gas_left := gas_left s - gas_cost (instruction_table op)\<rparr>"

definition gas_decreases ::
  "InstructionTable \<Rightarrow> ('a ExecutionState_scheme) Instructions \<Rightarrow> bool" where
  "gas_decreases instruction_table fns \<longleftrightarrow>
     (\<forall>op s. gas_cost (instruction_table op) \<noteq> instr_undefined
          \<longrightarrow> 0 \<le> gas_left (charged instruction_table op s) \<longrightarrow>
        (instr_kind op = Some K_void \<longrightarrow>
           gas_left (instr_void fns op (charged instruction_table op s)) < gas_left s)
      \<and> (instr_kind op = Some K_status \<longrightarrow>
           fst (instr_status fns op (charged instruction_table op s)) = EVMC_SUCCESS \<longrightarrow>
           gas_left (snd (instr_status fns op (charged instruction_table op s))) < gas_left s)
      \<and> (instr_kind op = Some K_jump \<longrightarrow>
           (\<forall>pos. fst (fst (instr_jump fns op (charged instruction_table op s) pos))
                    = EVMC_SUCCESS \<longrightarrow>
              gas_left (snd (instr_jump fns op (charged instruction_table op s) pos))
                < gas_left s))
      \<and> (instr_kind op = Some K_pc \<longrightarrow>
           (\<forall>pos. gas_left (snd (instr_pc fns (charged instruction_table op s) pos))
                    < gas_left s))
      \<and> (\<forall>n. instr_kind op = Some (K_push n) \<longrightarrow>
           (\<forall>pos. gas_left (snd (instr_push fns n (charged instruction_table op s) pos))
                    < gas_left s)))"


text \<open>
  Modelled from the spec: the routines of a fragment of the EVM with STOP, JUMP,
  JUMPDEST and PUSH, enough to run the loop \<open>5b 60 00 56\<close> of the specification.
  JUMP pops the target and verifies it against the bitmap; PUSH\<open>n\<close> reads the next \<open>n\<close>
  bytes as a big-endian immediate, zero beyond the end, and pushes it; JUMPDEST does
  nothing; STOP ends the run with success. The requirements check has made sure that
  JUMP finds its operand. The table of the fragment defines the four opcodes with the
  base costs of the EVM and leaves every other opcode undefined, so the routines of the
  other opcodes are never called.
\<close>

definition be_load :: "u8 list \<Rightarrow> uint256" where
  "be_load bytes = foldl (\<lambda>acc b. acc * 256 + ucast b) 0 bytes"

definition jump ::
  "CodeAnalysis \<Rightarrow> ExecutionState \<Rightarrow> nat \<Rightarrow> (evmc_status_code \<times> nat) \<times> ExecutionState" where
  "jump analysis state pos =
    (let dst = last (stack state);
         state1 = state\<lparr>stack := butlast (stack state)\<rparr>
     in if check_jumpdest analysis (unat dst) then ((EVMC_SUCCESS, unat dst), state1)
        else ((EVMC_BAD_JUMP_DESTINATION, pos), state1))"

definition push ::
  "CodeAnalysis \<Rightarrow> nat \<Rightarrow> ExecutionState \<Rightarrow> nat \<Rightarrow> nat \<times> ExecutionState" where
  "push analysis n state pos =
    (let bytes = map (\<lambda>j. case fetch (padded_code analysis) (pos + 1 + j) of
                             Inr b \<Rightarrow> b | Inl f \<Rightarrow> 0) [0..<n]
     in (pos + n + 1, state\<lparr>stack := stack state @ [be_load bytes]\<rparr>))"

definition fragment_instructions :: "CodeAnalysis \<Rightarrow> ExecutionState Instructions" where
  "fragment_instructions analysis =
    \<lparr>instr_void = (\<lambda>op state. state),
     instr_status = (\<lambda>op state. (EVMC_SUCCESS, state)),
     instr_stop = (\<lambda>op state. (EVMC_SUCCESS, state)),
     instr_jump = (\<lambda>op state pos. jump analysis state pos),
     instr_pc = (\<lambda>state pos. (pos + 1, state\<lparr>stack := stack state @ [of_nat pos]\<rparr>)),
     instr_push = (\<lambda>n state pos. push analysis n state pos)\<rparr>"

definition fragment_table :: InstructionTable where
  "fragment_table op =
    (if op = OP_STOP then
       \<lparr>gas_cost = 0, stack_height_required = 0, can_overflow_stack = False\<rparr>
     else if op = OP_JUMP then
       \<lparr>gas_cost = 8, stack_height_required = 1, can_overflow_stack = False\<rparr>
     else if op = OP_JUMPDEST then
       \<lparr>gas_cost = 1, stack_height_required = 0, can_overflow_stack = False\<rparr>
     else if op = OP_PUSH1 then
       \<lparr>gas_cost = 3, stack_height_required = 0, can_overflow_stack = True\<rparr>
     else
       \<lparr>gas_cost = instr_undefined, stack_height_required = 0, can_overflow_stack = False\<rparr>)"



text \<open>
  Modelled from the spec: the fragment with two more routines, POP and a sub-call in
  the way section 4.4 describes CALL, by its effect on stack and gas: it pops the seven
  arguments (the gas argument on top), computes the callee's gas budget by the 63/64
  rule, takes the budget from \<open>gas_left\<close>, invokes the host, pushes 1 for a successful
  call and adds to \<open>gas_left\<close> the gas that the host reports as unspent. The host is the
  parameter: it maps the budget to the gas it reports. The base costs are those of the
  EVM (CALL 700, POP 2). \<open>credit_instructions\<close> has a host that reports 1000 more than
  it was given.
\<close>

definition OP_POP :: u8 where "OP_POP = 0x50"
definition OP_CALL :: u8 where "OP_CALL = 0xf1"

definition pop :: "ExecutionState \<Rightarrow> ExecutionState" where
  "pop state = state\<lparr>stack := butlast (stack state)\<rparr>"

definition call :: "(int \<Rightarrow> int) \<Rightarrow> ExecutionState \<Rightarrow> evmc_status_code \<times> ExecutionState" where
  "call host_gas_left state =
    (let requested = uint (last (stack state));
         budget = min requested (gas_left state - gas_left state div 64);
         state1 = state\<lparr>stack := take (length (stack state) - 7) (stack state),
                        gas_left := gas_left state - budget\<rparr>;
         state2 = state1\<lparr>stack := stack state1 @ [1],
                         gas_left := gas_left state1 + host_gas_left budget\<rparr>
     in (EVMC_SUCCESS, state2))"

definition credit_instructions :: "CodeAnalysis \<Rightarrow> ExecutionState Instructions" where
  "credit_instructions analysis =
    (fragment_instructions analysis)
      \<lparr>instr_void := (\<lambda>op state. if op = OP_POP then pop state else state),
       instr_status := (\<lambda>op state. call (\<lambda>budget. budget + 1000) state)\<rparr>"

definition credit_table :: InstructionTable where
  "credit_table op =
    (if op = OP_CALL then
       \<lparr>gas_cost = 700, stack_height_required = 7, can_overflow_stack = False\<rparr>
     else if op = OP_POP then
       \<lparr>gas_cost = 2, stack_height_required = 1, can_overflow_stack = False\<rparr>
     else fragment_table op)"



section \<open>Reference models, in the words of the specification\<close>

text \<open>
  The glossary of the specification: PUSH1 to PUSH32 are the 32 opcodes \<open>0x60\<close> to
  \<open>0x7f\<close>, and PUSH\<open>n\<close> is followed by \<open>n\<close> bytes of immediate data.
\<close>

definition immediate_size :: "u8 \<Rightarrow> nat" where
  "immediate_size op =
    (if OP_PUSH1 \<le> op \<and> op \<le> OP_PUSH32 then unat op - unat OP_PUSH1 + 1 else 0)"

text \<open>
  The instruction boundaries of a code: offset 0, and the offset after an instruction
  and its immediate data.
\<close>

inductive instr_start :: "u8 list \<Rightarrow> nat \<Rightarrow> bool" for code :: "u8 list" where
  first: "instr_start code 0"
| after: "instr_start code p \<Longrightarrow> p < length code
          \<Longrightarrow> instr_start code (p + immediate_size (code ! p) + 1)"

text \<open>
  The order of checks of the specification's dispatch loop: undefined, then gas, then
  overflow, then underflow.
\<close>

definition preflight_ref :: "bool \<Rightarrow> int \<Rightarrow> int \<Rightarrow> bool \<Rightarrow> bool \<Rightarrow> evmc_status_code" where
  "preflight_ref defined gas cost overflow underflow =
    (if \<not> defined then EVMC_UNDEFINED_INSTRUCTION
     else if gas - cost < 0 then EVMC_OUT_OF_GAS
     else if overflow then EVMC_STACK_OVERFLOW
     else if underflow then EVMC_STACK_UNDERFLOW
     else EVMC_SUCCESS)"

text \<open>
  The PUSH data regions of the specification: an offset lies inside the immediate data
  of a preceding PUSH instruction when a PUSH\<open>n\<close> stands at an instruction boundary
  \<open>p\<close> before it and the offset is one of the \<open>n\<close> bytes that follow \<open>p\<close>.
\<close>

definition in_push_data :: "u8 list \<Rightarrow> nat \<Rightarrow> bool" where
  "in_push_data code i \<longleftrightarrow>
    (\<exists>p<i. instr_start code p \<and> OP_PUSH1 \<le> code ! p \<and> code ! p \<le> OP_PUSH32
           \<and> i \<le> p + immediate_size (code ! p))"

text \<open>
  The same regions, computed: \<open>push_data_mask code k\<close> marks, byte by byte, whether a
  byte is immediate data, when the first \<open>k\<close> bytes still belong to a PUSH that started
  before.
\<close>

fun push_data_mask :: "u8 list \<Rightarrow> nat \<Rightarrow> bool list" where
  "push_data_mask [] k = []"
| "push_data_mask (b # bs) k =
    (if 0 < k then True # push_data_mask bs (k - 1)
     else False # push_data_mask bs (immediate_size b))"

text \<open>The bitmap that the specification describes, given the data mask.\<close>

definition jumpdests_ref :: "u8 list \<Rightarrow> nat \<Rightarrow> bool list" where
  "jumpdests_ref bs k =
    map (\<lambda>(b, d). b = OP_JUMPDEST \<and> \<not> d) (zip bs (push_data_mask bs k))"

text \<open>The memory cost formula of the specification, by number of 32-byte words.\<close>

definition memory_cost :: "int \<Rightarrow> int" where
  "memory_cost w = 3 * w + w * w div 512"

definition words_of :: "int \<Rightarrow> int" where
  "words_of n = (n + 31) div 32"

section \<open>Properties of the prototype's memory check\<close>

lemma check_memory_stack:
  "stack (snd (check_memory state offset sz)) = stack state"
  by (simp add: check_memory_def Let_def)

text \<open>
  C7. A memory access check with size zero succeeds and changes nothing: memory, gas,
  status and every other field of the state are as before, whatever the offset.
\<close>

theorem check_memory_zero_size:
  "check_memory state offset 0 = (True, state)"
  by (simp add: check_memory_def)

text \<open>
  C9. A memory access of nonzero size whose offset or size is above \<open>2 ^ 32 - 1\<close> fails:
  the check returns False, the status is out-of-gas, \<open>run\<close> is cleared and nothing else
  of the state changes, so no gas is charged and the memory does not grow.
\<close>

theorem check_memory_beyond_limit:
  assumes "sz \<noteq> 0" and "0xFFFFFFFF < offset \<or> 0xFFFFFFFF < sz"
  shows "check_memory state offset sz
           = (False, state\<lparr>status := EVMC_OUT_OF_GAS, run := False\<rparr>)"
  using assms by (simp add: check_memory_def)

theorem check_memory_beyond_limit_witness:
  "(32 :: uint256) \<noteq> 0 \<and> ((0xFFFFFFFF :: uint256) < 0x100000000 \<or> (0xFFFFFFFF :: uint256) < 32)
   \<and> check_memory (initial_state 100) 0x100000000 32
       = (False, (initial_state 100)\<lparr>status := EVMC_OUT_OF_GAS, run := False\<rparr>)
   \<and> gas_left (snd (check_memory (initial_state 100) 0x100000000 32)) = 100
   \<and> memory (snd (check_memory (initial_state 100) 0x100000000 32)) = []"
proof -
  have nz: "(32 :: uint256) \<noteq> 0" by simp
  have big: "(0xFFFFFFFF :: uint256) < 0x100000000 \<or> (0xFFFFFFFF :: uint256) < 32" by simp
  show ?thesis
    using nz big check_memory_beyond_limit [OF nz big, of "initial_state 100"]
    by (simp add: initial_state_def)
qed

text \<open>
  C10. When the memory check of MSTORE fails, \<open>op_mstore\<close> returns the state that the
  check left, and the stack of that state is the stack before the call: both operands
  are still on it.
\<close>

theorem op_mstore_failed_check_keeps_stack:
  assumes "2 \<le> length (stack state)"
    and "\<not> fst (check_memory state (item state 0) 32)"
  shows "op_mstore state = Inr (snd (check_memory state (item state 0) 32))
         \<and> (\<exists>state'. op_mstore state = Inr state' \<and> stack state' = stack state)"
proof -
  obtain ok state1 where cm: "check_memory state (item state 0) 32 = (ok, state1)"
    by (cases "check_memory state (item state 0) 32")
  from assms(2) cm have "\<not> ok" by simp
  with assms(1) cm have res: "op_mstore state = Inr state1"
    by (simp add: op_mstore_def Let_def)
  have "stack state1 = stack state"
    using check_memory_stack [of state "item state 0" 32] cm by simp
  with res cm show ?thesis by simp
qed

theorem op_mstore_failed_check_keeps_stack_witness:
  "2 \<le> length (stack ((initial_state 2)\<lparr>stack := [7, 0]\<rparr>))
   \<and> \<not> fst (check_memory ((initial_state 2)\<lparr>stack := [7, 0]\<rparr>)
                (item ((initial_state 2)\<lparr>stack := [7, 0]\<rparr>) 0) 32)
   \<and> (\<exists>state'. op_mstore ((initial_state 2)\<lparr>stack := [7, 0]\<rparr>) = Inr state'
         \<and> stack state' = [7, 0])"
proof -
  let ?s = "(initial_state 2)\<lparr>stack := [7, 0]\<rparr>"
  have len: "2 \<le> length (stack ?s)" by (simp add: initial_state_def)
  have fails: "\<not> fst (check_memory ?s (item ?s 0) 32)"
    by (simp add: check_memory_def item_def initial_state_def Let_def)
  have "stack ?s = [7, 0]" by (simp add: initial_state_def)
  then show ?thesis
    using len fails op_mstore_failed_check_keeps_stack [OF len fails]
    by (simp add: check_memory_stack)
qed

text \<open>
  C5. After a successful check of a nonzero access the memory should cover the range
  accessed and have a size that is a multiple of 32. The check compares the memory size
  with the size of the access, not with the end of the access, and resizes to the end of
  the access, not to the next multiple of 32. A first MSTORE of 0 at offset 0 leaves 32
  bytes of memory; a second MSTORE at offset 32 then passes the check with the memory
  left at 32 bytes and nothing charged, and its store falls outside the vector. On empty
  memory an access of 32 bytes at offset 1 leaves a memory of 33 bytes.
\<close>

theorem check_memory_skips_growth:
  "op_mstore ((initial_state 100)\<lparr>stack := [0, 0]\<rparr>)
     = Inr ((initial_state 97)\<lparr>memory := replicate 32 0, memory_prev_cost := 3\<rparr>)
   \<and> check_memory ((initial_state 97)\<lparr>stack := [1, 32], memory := replicate 32 0,
                                       memory_prev_cost := 3\<rparr>) 32 32
     = (True, (initial_state 97)\<lparr>stack := [1, 32], memory := replicate 32 0,
                                   memory_prev_cost := 3\<rparr>)
   \<and> op_mstore ((initial_state 97)\<lparr>stack := [1, 32], memory := replicate 32 0,
                                    memory_prev_cost := 3\<rparr>) = Inl MemoryOutOfRange
   \<and> fst (check_memory (initial_state 100) 1 32)
   \<and> length (memory (snd (check_memory (initial_state 100) 1 32))) = 33"
  by code_simp

section \<open>Properties of the gas charge and of the requirements\<close>

lemma preflight_ref_success:
  "preflight_ref defined gas cost overflow underflow = EVMC_SUCCESS
    \<longleftrightarrow> defined \<and> cost \<le> gas \<and> \<not> overflow \<and> \<not> underflow"
  by (simp add: preflight_ref_def)

lemma check_requirements_status:
  assumes "stack_height_required (tbl op) \<le> 1024"
  shows "fst (check_requirements tbl state op)
    = preflight_ref (gas_cost (tbl op) \<noteq> instr_undefined) (gas_left state) (gas_cost (tbl op))
        (length (stack state) = 1024 \<and> can_overflow_stack (tbl op))
        (int (length (stack state)) < stack_height_required (tbl op))"
  using assms by (auto simp: check_requirements_def preflight_ref_def Stack_limit_def Let_def)

text \<open>
  The gas charges that test the sign after subtracting: the baseline requirements and the
  prototype's memory check fail with out-of-gas exactly on a negative remainder.
\<close>

lemma check_requirements_out_of_gas_iff:
  assumes "gas_cost (tbl op) \<noteq> instr_undefined"
  shows "fst (check_requirements tbl state op) = EVMC_OUT_OF_GAS
           \<longleftrightarrow> gas_left state - gas_cost (tbl op) < 0"
    and "gas_left (snd (check_requirements tbl state op)) = gas_left state - gas_cost (tbl op)"
  using assms by (auto simp: check_requirements_def Stack_limit_def Let_def)

lemma check_memory_growth_out_of_gas_iff:
  assumes "sz \<noteq> 0" and "offset \<le> 0xFFFFFFFF" and "sz \<le> 0xFFFFFFFF"
    and "int (length (memory state)) < uint sz"
  shows "fst (check_memory state offset sz)
    \<longleftrightarrow> 0 \<le> gas_left state
          - (memory_cost (words_of (uint offset + uint sz)) - memory_prev_cost state)"
  using assms
  by (auto simp: check_memory_def memory_cost_def words_of_def Let_def not_less)

text \<open>
  C2. A gas deduction should fail exactly when the gas left after it is negative. The
  per-block charge of the prototype tests \<open>gas_left \<le> 0\<close>: a block that costs exactly
  the gas left leaves with out-of-gas, and the result reports no gas left.
\<close>

theorem check_block_exact_gas_fails:
  "check_block \<lparr>gas_cost_blk = 3, stack_req = 0, stack_max = 1\<rparr> (initial_state 3)
     = (False, (initial_state 0)\<lparr>status := EVMC_OUT_OF_GAS\<rparr>)
   \<and> status_code (prototype_result (snd (check_block
         \<lparr>gas_cost_blk = 3, stack_req = 0, stack_max = 1\<rparr> (initial_state 3)))) = EVMC_OUT_OF_GAS
   \<and> gas_left_res (prototype_result (snd (check_block
         \<lparr>gas_cost_blk = 3, stack_req = 0, stack_max = 1\<rparr> (initial_state 3)))) = 0"
  by (simp add: check_block_def prototype_result_def initial_state_def Let_def)

text \<open>
  C1, as the code has it. The baseline \<open>check_requirements\<close> follows the order of the
  specification (undefined, gas, overflow, underflow) for every table entry whose
  required height is at most 1024 (an EVM instruction needs at most 17 items), and it
  succeeds exactly when the entry is defined, the gas covers the cost and neither stack
  test fires. The prototype's per-block check has no undefined test and takes the stack
  tests in the other order: it leaves with out-of-gas when the gas after the charge is
  negative; when that gas is positive it leaves with stack-underflow when the stack is
  shorter than \<open>stack_req\<close>, otherwise with stack-overflow when the stack length plus
  \<open>stack_max\<close> exceeds 1024, and otherwise goes on with the gas charged.
\<close>

theorem preflight_checks_order:
  "(stack_height_required (tbl op) \<le> 1024 \<longrightarrow>
      fst (check_requirements tbl state op)
        = preflight_ref (gas_cost (tbl op) \<noteq> instr_undefined) (gas_left state)
            (gas_cost (tbl op))
            (length (stack state) = 1024 \<and> can_overflow_stack (tbl op))
            (int (length (stack state)) < stack_height_required (tbl op))
      \<and> (fst (check_requirements tbl state op) = EVMC_SUCCESS \<longleftrightarrow>
            gas_cost (tbl op) \<noteq> instr_undefined \<and> gas_cost (tbl op) \<le> gas_left state
            \<and> \<not> (length (stack state) = 1024 \<and> can_overflow_stack (tbl op))
            \<and> \<not> int (length (stack state)) < stack_height_required (tbl op)))
   \<and> (gas_left pstate - gas_cost_blk block < 0 \<longrightarrow>
        check_block block pstate
          = (False, pstate\<lparr>gas_left := gas_left pstate - gas_cost_blk block,
                           status := EVMC_OUT_OF_GAS\<rparr>))
   \<and> (0 < gas_left pstate - gas_cost_blk block \<longrightarrow>
        check_block block pstate
          = (if int (length (stack pstate)) < stack_req block then
               (False, pstate\<lparr>gas_left := gas_left pstate - gas_cost_blk block,
                              status := EVMC_STACK_UNDERFLOW\<rparr>)
             else if 1024 < int (length (stack pstate)) + stack_max block then
               (False, pstate\<lparr>gas_left := gas_left pstate - gas_cost_blk block,
                              status := EVMC_STACK_OVERFLOW\<rparr>)
             else (True, pstate\<lparr>gas_left := gas_left pstate - gas_cost_blk block\<rparr>)))"
proof (intro conjI impI)
  assume h: "stack_height_required (tbl op) \<le> 1024"
  show ref: "fst (check_requirements tbl state op)
        = preflight_ref (gas_cost (tbl op) \<noteq> instr_undefined) (gas_left state)
            (gas_cost (tbl op))
            (length (stack state) = 1024 \<and> can_overflow_stack (tbl op))
            (int (length (stack state)) < stack_height_required (tbl op))"
    using h by (rule check_requirements_status)
  show "fst (check_requirements tbl state op) = EVMC_SUCCESS \<longleftrightarrow>
            gas_cost (tbl op) \<noteq> instr_undefined \<and> gas_cost (tbl op) \<le> gas_left state
            \<and> \<not> (length (stack state) = 1024 \<and> can_overflow_stack (tbl op))
            \<and> \<not> int (length (stack state)) < stack_height_required (tbl op)"
    unfolding ref preflight_ref_success by simp
next
  assume "gas_left pstate - gas_cost_blk block < 0"
  then show "check_block block pstate
          = (False, pstate\<lparr>gas_left := gas_left pstate - gas_cost_blk block,
                           status := EVMC_OUT_OF_GAS\<rparr>)"
    by (simp add: check_block_def Let_def)
next
  assume "0 < gas_left pstate - gas_cost_blk block"
  then show "check_block block pstate
          = (if int (length (stack pstate)) < stack_req block then
               (False, pstate\<lparr>gas_left := gas_left pstate - gas_cost_blk block,
                              status := EVMC_STACK_UNDERFLOW\<rparr>)
             else if 1024 < int (length (stack pstate)) + stack_max block then
               (False, pstate\<lparr>gas_left := gas_left pstate - gas_cost_blk block,
                              status := EVMC_STACK_OVERFLOW\<rparr>)
             else (True, pstate\<lparr>gas_left := gas_left pstate - gas_cost_blk block\<rparr>))"
    by (simp add: check_block_def Let_def)
qed

theorem preflight_checks_order_witness:
  "(2 :: int) \<le> 1024
   \<and> fst (check_requirements
          (\<lambda>op. \<lparr>gas_cost = 3, stack_height_required = 2, can_overflow_stack = False\<rparr>)
          ((new_state 10)\<lparr>stack := [1, 2]\<rparr>) 0x01) = EVMC_SUCCESS
   \<and> (0 :: int) < 10 - 3
   \<and> check_block \<lparr>gas_cost_blk = 3, stack_req = 2, stack_max = 0\<rparr> (initial_state 10)
       = (False, (initial_state 7)\<lparr>status := EVMC_STACK_UNDERFLOW\<rparr>)
   \<and> (2 :: int) - 3 < 0
   \<and> check_block \<lparr>gas_cost_blk = 3, stack_req = 2, stack_max = 0\<rparr> (initial_state 2)
       = (False, (initial_state (- 1))\<lparr>status := EVMC_OUT_OF_GAS\<rparr>)"
  using preflight_checks_order
    [of "\<lambda>op. \<lparr>gas_cost = 3, stack_height_required = 2, can_overflow_stack = False\<rparr>" "0x01"
        "(new_state 10)\<lparr>stack := [1, 2]\<rparr>" "initial_state 10"
        "\<lparr>gas_cost_blk = 3, stack_req = 2, stack_max = 0\<rparr>"]
    preflight_checks_order
    [of "\<lambda>op. \<lparr>gas_cost = 3, stack_height_required = 2, can_overflow_stack = False\<rparr>" "0x01"
        "(new_state 10)\<lparr>stack := [1, 2]\<rparr>" "initial_state 2"
        "\<lparr>gas_cost_blk = 3, stack_req = 2, stack_max = 0\<rparr>"]
  by (simp add: new_state_def initial_state_def instr_undefined_def)

text \<open>
  The claim as written fails on the prototype: with gas to spare, a full stack, a block
  that needs 1025 items and can add one, the reference order reports stack-overflow and
  the per-block check leaves with stack-underflow.
\<close>

theorem preflight_checks_order_counterexample:
  "status (snd (check_block \<lparr>gas_cost_blk = 5000, stack_req = 1025, stack_max = 1\<rparr>
                  ((initial_state 10000)\<lparr>stack := replicate 1024 0\<rparr>)))
     = EVMC_STACK_UNDERFLOW
   \<and> preflight_ref True 10000 5000
        (1024 < int (length (replicate 1024 (0 :: uint256))) + 1)
        (int (length (replicate 1024 (0 :: uint256))) < 1025) = EVMC_STACK_OVERFLOW
   \<and> preflight_ref True 10000 5000
        (length (replicate 1024 (0 :: uint256)) = 1024 \<and> (0 :: int) < 1)
        (int (length (replicate 1024 (0 :: uint256))) < 1025) = EVMC_STACK_OVERFLOW"
  by (simp add: check_block_def preflight_ref_def initial_state_def Let_def)

section \<open>Properties of the result assembly\<close>

text \<open>
  C6. The gas of the result is the gas of the final state when the status is success or
  revert and zero for every other status, in the baseline and in the prototype; the
  status of the result is the status of the state.
\<close>

theorem result_gas_left:
  "gas_left_res (baseline_result state)
     = (if status state = EVMC_SUCCESS \<or> status state = EVMC_REVERT then gas_left state else 0)
   \<and> status_code (baseline_result state) = status state
   \<and> gas_left_res (prototype_result pstate)
     = (if status pstate = EVMC_SUCCESS \<or> status pstate = EVMC_REVERT then gas_left pstate
        else 0)
   \<and> status_code (prototype_result pstate) = status pstate"
  by (simp add: baseline_result_def prototype_result_def Let_def)

theorem result_gas_left_witness:
  "gas_left_res (baseline_result ((new_state 5)\<lparr>status := EVMC_REVERT\<rparr>)) = 5
   \<and> gas_left_res (baseline_result ((new_state 5)\<lparr>status := EVMC_BAD_JUMP_DESTINATION\<rparr>)) = 0
   \<and> gas_left_res (prototype_result (initial_state 5)) = 5
   \<and> gas_left_res (prototype_result ((initial_state 5)\<lparr>status := EVMC_OUT_OF_GAS\<rparr>)) = 0"
  using result_gas_left [of "(new_state 5)\<lparr>status := EVMC_REVERT\<rparr>" "initial_state 5"]
    result_gas_left [of "(new_state 5)\<lparr>status := EVMC_BAD_JUMP_DESTINATION\<rparr>"
                        "(initial_state 5)\<lparr>status := EVMC_OUT_OF_GAS\<rparr>"]
  by (simp add: new_state_def initial_state_def)

section \<open>Properties of the code analysis\<close>

lemma sint_u8: "sint (w :: u8) = (if uint w < 128 then uint w else uint w - 256)"
proof -
  have b: "uint w < 256" using uint_lt2p [of w] by simp
  have n: "0 \<le> uint w" by simp
  have tb: "take_bit 8 (uint w) = uint w"
    using b n by (simp add: take_bit_int_eq_self)
  have bt: "bit (uint w) 7 \<longleftrightarrow> 128 \<le> uint w"
  proof -
    have "uint w div 128 = 0 \<or> uint w div 128 = 1" using b n by auto
    then show ?thesis unfolding bit_iff_odd using b n
      by auto
  qed
  show ?thesis
    unfolding sint_uint using tb bt
    by (simp add: signed_take_bit_eq_take_bit_minus)
qed

lemma push_test: "sint OP_PUSH1 \<le> sint (op :: u8) \<longleftrightarrow> OP_PUSH1 \<le> op \<and> op \<le> OP_PUSH32"
proof -
  have b: "uint op < 256" using uint_lt2p [of op] by simp
  show ?thesis
  unfolding OP_PUSH1_def OP_PUSH32_def
  using b by (auto simp add: word_le_def sint_u8)
qed

lemma push_skip: "sint OP_PUSH1 \<le> sint (op :: u8) \<Longrightarrow> unat op - (unat OP_PUSH1 - 1) = immediate_size op"
  unfolding push_test immediate_size_def by (auto simp: OP_PUSH1_def word_le_nat_alt)

lemma not_push_size: "\<not> sint OP_PUSH1 \<le> sint (op :: u8) \<Longrightarrow> immediate_size op = 0"
  unfolding push_test immediate_size_def by auto

lemma immediate_size_le: "immediate_size op \<le> 32"
  unfolding immediate_size_def OP_PUSH1_def OP_PUSH32_def by (auto simp: word_le_nat_alt)

lemma analyze_loop_fst_bounds:
  "max i (length code) \<le> fst (analyze_loop code i m) \<and> fst (analyze_loop code i m) \<le> max i (length code + 32)"
proof (induction code i m rule: analyze_loop.induct)
  case (1 code i jdmap)
  show ?case
  proof (cases "i < length code")
    case False
    then show ?thesis by (simp add: analyze_loop.simps [of code i jdmap])
  next
    case True
    note lt = True
    show ?thesis
    proof (cases "sint OP_PUSH1 \<le> sint (code ! i)")
      case True
      have sk: "unat (code ! i) - (unat OP_PUSH1 - 1) = immediate_size (code ! i)"
        using True by (rule push_skip)
      have le: "immediate_size (code ! i) \<le> 32" by (rule immediate_size_le)
      from "1.IH"(1) [OF lt refl True] lt True sk le show ?thesis
        by (simp add: analyze_loop.simps [of code i jdmap] Let_def)
    next
      case False
      note np = False
      show ?thesis
      proof (cases "code ! i = OP_JUMPDEST")
        case True
        from "1.IH"(2) [OF lt refl np True] lt np True show ?thesis
          by (simp add: analyze_loop.simps [of code i jdmap] Let_def)
      next
        case False
        from "1.IH"(3) [OF lt refl np False] lt np False show ?thesis
          by (simp add: analyze_loop.simps [of code i jdmap] Let_def)
      qed
    qed
  qed
qed



lemma length_push_data_mask [simp]: "length (push_data_mask bs k) = length bs"
  by (induction bs arbitrary: k) auto

lemma jumpdests_ref_Nil [simp]: "jumpdests_ref [] k = []"
  by (simp add: jumpdests_ref_def)

lemma jumpdests_ref_Cons:
  "jumpdests_ref (b # bs) k =
    (if 0 < k then False # jumpdests_ref bs (k - 1)
     else (b = OP_JUMPDEST) # jumpdests_ref bs (immediate_size b))"
  by (simp add: jumpdests_ref_def)

lemma jumpdests_ref_skip:
  "jumpdests_ref bs k = replicate (min k (length bs)) False @ jumpdests_ref (drop k bs) 0"
proof (induction bs arbitrary: k)
  case Nil
  then show ?case by simp
next
  case (Cons b bs)
  show ?case
  proof (cases k)
    case 0
    then show ?thesis by simp
  next
    case (Suc k')
    then show ?thesis using Cons.IH [of k'] by (simp add: jumpdests_ref_Cons)
  qed
qed

lemma immediate_size_JUMPDEST [simp]: "immediate_size OP_JUMPDEST = 0"
  by (simp add: immediate_size_def OP_JUMPDEST_def OP_PUSH1_def OP_PUSH32_def)

lemma analyze_loop_snd:
  assumes "length m = length code" and "drop i m = replicate (length code - i) False"
  shows "snd (analyze_loop code i m) = take i m @ jumpdests_ref (drop i code) 0"
  using assms
proof (induction code i m rule: analyze_loop.induct)
  case (1 code i jdmap)
  show ?case
  proof (cases "i < length code")
    case False
    then show ?thesis using "1.prems" by (simp add: analyze_loop.simps [of code i jdmap])
  next
    case True
    note lt = True
    have dc: "drop i code = code ! i # drop (Suc i) code"
      using lt by (simp add: Cons_nth_drop_Suc)
    have dm': "drop (Suc i) jdmap = replicate (length code - Suc i) False"
    proof -
      have "drop (Suc i) jdmap = tl (drop i jdmap)" by (simp add: drop_Suc tl_drop)
      then show ?thesis using "1.prems"(2) by simp
    qed
    have mi: "jdmap ! i = False"
    proof -
      have "jdmap ! i = hd (drop i jdmap)" using lt "1.prems"(1) by (simp add: hd_drop_conv_nth)
      then show ?thesis using "1.prems"(2) lt by (cases "length code - i") auto
    qed
    show ?thesis
    proof (cases "sint OP_PUSH1 \<le> sint (code ! i)")
      case True
      let ?n = "immediate_size (code ! i)"
      have sk: "unat (code ! i) - (unat OP_PUSH1 - 1) = ?n"
        using True by (rule push_skip)
      have nj: "code ! i \<noteq> OP_JUMPDEST" using True unfolding push_test by (auto simp: OP_JUMPDEST_def OP_PUSH1_def)
      have d': "drop (i + ?n + 1) jdmap = replicate (length code - (i + ?n + 1)) False"
      proof -
        have "drop (i + ?n + 1) jdmap = drop (?n + 1) (drop i jdmap)" by (simp add: add.commute)
        then show ?thesis using "1.prems"(2) by simp
      qed
      have step: "analyze_loop code i jdmap = analyze_loop code (i + ?n + 1) jdmap"
        using lt True sk by (simp add: analyze_loop.simps [of code i jdmap] Let_def)
      have ih: "snd (analyze_loop code (i + ?n + 1) jdmap) = take (i + ?n + 1) jdmap @ jumpdests_ref (drop (i + ?n + 1) code) 0"
        using "1.IH"(1) [OF lt refl True] "1.prems"(1) d' sk by simp
      have tk: "take (i + ?n + 1) jdmap = take i jdmap @ replicate (min (?n + 1) (length code - i)) False"
      proof -
        have "take (i + (?n + 1)) jdmap = take i jdmap @ take (?n + 1) (drop i jdmap)"
          by (rule take_add)
        then show ?thesis using "1.prems"(2) by (simp add: min.commute)
      qed
      have jr: "jumpdests_ref (drop i code) 0 = replicate (min (?n + 1) (length code - i)) False @ jumpdests_ref (drop (i + ?n + 1) code) 0"
      proof -
        have "jumpdests_ref (drop i code) 0 = False # jumpdests_ref (drop (Suc i) code) ?n"
          unfolding dc using nj by (simp add: jumpdests_ref_Cons)
        also have "jumpdests_ref (drop (Suc i) code) ?n
            = replicate (min ?n (length code - Suc i)) False @ jumpdests_ref (drop ?n (drop (Suc i) code)) 0"
          using jumpdests_ref_skip [of "drop (Suc i) code" ?n] by simp
        also have "drop ?n (drop (Suc i) code) = drop (i + ?n + 1) code" by (simp add: add.commute)
        finally have e: "jumpdests_ref (drop i code) 0
            = replicate (Suc (min ?n (length code - Suc i))) False
              @ jumpdests_ref (drop (i + ?n + 1) code) 0"
          by simp
        have "Suc (min ?n (length code - Suc i)) = min (?n + 1) (length code - i)"
          using lt by (auto simp: min_def)
        with e show ?thesis by simp
      qed
      show ?thesis unfolding step ih tk jr by simp
    next
      case False
      note np = False
      have z: "immediate_size (code ! i) = 0" using np by (rule not_push_size)
      show ?thesis
      proof (cases "code ! i = OP_JUMPDEST")
        case True
        have step: "analyze_loop code i jdmap = analyze_loop code (i + 1) (jdmap[i := True])"
          using lt np True by (simp add: analyze_loop.simps [of code i jdmap] Let_def)
        have ih: "snd (analyze_loop code (i + 1) (jdmap[i := True])) = take (i + 1) (jdmap[i := True]) @ jumpdests_ref (drop (i + 1) code) 0"
          using "1.IH"(2) [OF lt refl np True] "1.prems"(1) dm' by simp
        have tk: "take (i + 1) (jdmap[i := True]) = take i jdmap @ [True]"
          using lt "1.prems"(1) by (simp add: take_Suc_conv_app_nth)
        show ?thesis unfolding step ih tk dc using True z by (simp add: jumpdests_ref_Cons)
      next
        case False
        have step: "analyze_loop code i jdmap = analyze_loop code (i + 1) jdmap"
          using lt np False by (simp add: analyze_loop.simps [of code i jdmap] Let_def)
        have ih: "snd (analyze_loop code (i + 1) jdmap) = take (i + 1) jdmap @ jumpdests_ref (drop (i + 1) code) 0"
          using "1.IH"(3) [OF lt refl np False] "1.prems"(1) dm' by simp
        have tk: "take (i + 1) jdmap = take i jdmap @ [False]"
          using lt "1.prems"(1) mi by (simp add: take_Suc_conv_app_nth)
        show ?thesis unfolding step ih tk dc using False z by (simp add: jumpdests_ref_Cons)
      qed
    qed
  qed
qed


lemma jumpdests_ref_nth:
  "i < length bs \<Longrightarrow> jumpdests_ref bs k ! i = (bs ! i = OP_JUMPDEST \<and> \<not> push_data_mask bs k ! i)"
  by (simp add: jumpdests_ref_def)

lemma analyze_jumpdest_map: "jumpdest_map (analyze code) = jumpdests_ref code 0"
  using analyze_loop_snd [of "replicate (length code) False" code 0]
  by (simp add: analyze_def Let_def split_beta)

lemma scan_end_bounds: "length code \<le> scan_end code \<and> scan_end code \<le> length code + 32"
  using analyze_loop_fst_bounds [of 0 code "replicate (length code) False"]
  by (simp add: scan_end_def)

lemma padded_code_eq:
  "padded_code (analyze code)
    = ((map Some code @ replicate (scan_end code + 1 - length code) None)
        [length code := Some OP_STOP])[scan_end code := Some OP_STOP]"
  by (simp add: analyze_def scan_end_def copy_n_def Let_def split_beta del: replicate.simps)

lemma push_data_mask_nth_True:
  "j < k \<Longrightarrow> j < length bs \<Longrightarrow> push_data_mask bs k ! j"
proof (induction bs arbitrary: j k)
  case Nil then show ?case by simp
next
  case (Cons b bs)
  show ?case
  proof (cases j)
    case 0 then show ?thesis using Cons.prems by simp
  next
    case (Suc j')
    then show ?thesis using Cons.prems Cons.IH [of j' "k - 1"] by simp
  qed
qed

lemma push_data_mask_drop:
  "k \<le> length bs \<Longrightarrow> drop k (push_data_mask bs k) = push_data_mask (drop k bs) 0"
proof (induction bs arbitrary: k)
  case Nil then show ?case by simp
next
  case (Cons b bs)
  show ?case
  proof (cases k)
    case 0 then show ?thesis by simp
  next
    case (Suc k')
    then show ?thesis using Cons.prems Cons.IH [of k'] by simp
  qed
qed

lemma instr_start_mask:
  "instr_start code p \<Longrightarrow> p \<le> length code
    \<Longrightarrow> drop p (push_data_mask code 0) = push_data_mask (drop p code) 0"
proof (induction rule: instr_start.induct)
  case first
  show ?case by simp
next
  case (after p)
  let ?n = "immediate_size (code ! p)"
  have dc: "drop p code = code ! p # drop (Suc p) code"
    using after.hyps(2) by (simp add: Cons_nth_drop_Suc)
  have ih: "drop p (push_data_mask code 0) = False # push_data_mask (drop (Suc p) code) ?n"
    using after.IH after.hyps(2) by (simp add: dc)
  have le: "?n \<le> length (drop (Suc p) code)" using after.prems by simp
  have "drop (p + ?n + 1) (push_data_mask code 0)
      = drop (?n + 1) (drop p (push_data_mask code 0))"
    by (simp add: add.commute)
  also have "\<dots> = drop ?n (push_data_mask (drop (Suc p) code) ?n)"
    by (simp add: ih)
  also have "\<dots> = push_data_mask (drop ?n (drop (Suc p) code)) 0"
    using le by (rule push_data_mask_drop)
  also have "drop ?n (drop (Suc p) code) = drop (p + ?n + 1) code"
    by (simp add: add.commute)
  finally show ?case .
qed

lemma instr_start_not_masked:
  assumes "instr_start code p" and "p < length code"
  shows "\<not> push_data_mask code 0 ! p"
proof -
  have "push_data_mask code 0 ! p = hd (drop p (push_data_mask code 0))"
    using assms(2) by (simp add: hd_drop_conv_nth)
  also have "drop p (push_data_mask code 0) = push_data_mask (drop p code) 0"
    using assms by (simp add: instr_start_mask)
  also have "drop p code = code ! p # drop (Suc p) code"
    using assms(2) by (simp add: Cons_nth_drop_Suc)
  finally show ?thesis by simp
qed

lemma instr_start_masks_data:
  assumes "instr_start code p" and "p < i" and "i \<le> p + immediate_size (code ! p)"
    and "i < length code"
  shows "push_data_mask code 0 ! i"
proof -
  let ?n = "immediate_size (code ! p)"
  have pl: "p < length code" using assms by simp
  have dc: "drop p code = code ! p # drop (Suc p) code"
    using pl by (simp add: Cons_nth_drop_Suc)
  have dm: "drop p (push_data_mask code 0) = False # push_data_mask (drop (Suc p) code) ?n"
    using instr_start_mask [OF assms(1)] pl by (simp add: dc)
  have "push_data_mask code 0 ! i = drop p (push_data_mask code 0) ! (i - p)"
    using assms by simp
  also have "\<dots> = push_data_mask (drop (Suc p) code) ?n ! (i - p - 1)"
    using assms(2) by (simp add: dm)
  also have "\<dots>"
    using assms by (intro push_data_mask_nth_True) simp_all
  finally show ?thesis .
qed

text \<open>The computed mask is the data region of the specification.\<close>

lemma in_push_data_mask:
  assumes "i < length code"
  shows "in_push_data code i \<longleftrightarrow> push_data_mask code 0 ! i"
proof
  assume "in_push_data code i"
  then show "push_data_mask code 0 ! i"
    using assms instr_start_masks_data unfolding in_push_data_def by blast
next
  assume d: "push_data_mask code 0 ! i"
  have "\<exists>p. (instr_start code p \<and> p \<le> i) \<and> (\<forall>q. instr_start code q \<and> q \<le> i \<longrightarrow> q \<le> p)"
    using Nat.ex_has_greatest_nat [of "\<lambda>q. instr_start code q \<and> q \<le> i" 0 i]
    by (simp add: instr_start.first)
  then obtain p where p: "instr_start code p" "p \<le> i"
    and mx: "\<And>q. instr_start code q \<Longrightarrow> q \<le> i \<Longrightarrow> q \<le> p" by blast
  have pl: "p < length code" using p assms by simp
  have nx: "instr_start code (p + immediate_size (code ! p) + 1)"
    using p(1) pl by (rule instr_start.after)
  have gt: "i \<le> p + immediate_size (code ! p)"
  proof (rule ccontr)
    assume "\<not> i \<le> p + immediate_size (code ! p)"
    then have "p + immediate_size (code ! p) + 1 \<le> i" by simp
    from mx [OF nx this] show False by simp
  qed
  have "p \<noteq> i" using d instr_start_not_masked [OF p(1) pl] by auto
  with p have lt: "p < i" by simp
  with gt have "0 < immediate_size (code ! p)" by simp
  then have "OP_PUSH1 \<le> code ! p \<and> code ! p \<le> OP_PUSH32"
    by (simp add: immediate_size_def split: if_splits)
  with p(1) lt gt show "in_push_data code i"
    unfolding in_push_data_def by blast
qed

text \<open>
  C3. The bitmap of \<open>analyze\<close> has the length of the code; its bit at an offset of the
  code is set exactly when the byte there is JUMPDEST and the offset is not in the
  immediate data of a PUSH; and the query is false at every offset at or beyond the code
  size.
\<close>

theorem analyze_jumpdest_bitmap:
  "length (jumpdest_map (analyze code)) = length code
   \<and> (\<forall>i<length code. jumpdest_map (analyze code) ! i
          \<longleftrightarrow> code ! i = OP_JUMPDEST \<and> \<not> in_push_data code i)
   \<and> (\<forall>t. length code \<le> t \<longrightarrow> \<not> check_jumpdest (analyze code) t)"
proof -
  have len: "length (jumpdest_map (analyze code)) = length code"
    by (simp add: analyze_jumpdest_map jumpdests_ref_def)
  have bits: "\<forall>i<length code. jumpdest_map (analyze code) ! i
          \<longleftrightarrow> code ! i = OP_JUMPDEST \<and> \<not> in_push_data code i"
    by (simp add: analyze_jumpdest_map jumpdests_ref_nth in_push_data_mask)
  have beyond: "\<forall>t. length code \<le> t \<longrightarrow> \<not> check_jumpdest (analyze code) t"
    using len by (simp add: check_jumpdest_def)
  from len bits beyond show ?thesis by blast
qed

theorem analyze_jumpdest_bitmap_witness:
  "length (jumpdest_map (analyze [0x60, 0x5b, 0x5b])) = 3
   \<and> \<not> jumpdest_map (analyze [0x60, 0x5b, 0x5b]) ! 1
   \<and> jumpdest_map (analyze [0x60, 0x5b, 0x5b]) ! 2
   \<and> in_push_data [0x60, 0x5b, 0x5b] 1
   \<and> \<not> in_push_data [0x60, 0x5b, 0x5b] 2
   \<and> \<not> check_jumpdest (analyze [0x60, 0x5b, 0x5b]) 3"
proof -
  let ?c = "[0x60, 0x5b, 0x5b] :: u8 list"
  note t = analyze_jumpdest_bitmap [of ?c]
  have "push_data_mask ?c 0 ! 1" by code_simp
  then have m1: "in_push_data ?c 1" by (simp add: in_push_data_mask)
  have "\<not> push_data_mask ?c 0 ! 2" by code_simp
  then have m2: "\<not> in_push_data ?c 2" by (simp add: in_push_data_mask)
  have c2: "?c ! 2 = OP_JUMPDEST" by (simp add: OP_JUMPDEST_def)
  from t have len: "length (jumpdest_map (analyze ?c)) = 3" by simp
  from t have bits: "\<forall>i<length ?c. jumpdest_map (analyze ?c) ! i
      \<longleftrightarrow> ?c ! i = OP_JUMPDEST \<and> \<not> in_push_data ?c i" by blast
  from t have beyond: "\<not> check_jumpdest (analyze ?c) 3" by simp
  have b1: "\<not> jumpdest_map (analyze ?c) ! 1"
    using bits [rule_format, of 1] m1 by simp
  have b2: "jumpdest_map (analyze ?c) ! 2"
    using bits [rule_format, of 2] m2 c2 by simp
  from len b1 b2 m1 m2 beyond show ?thesis by simp
qed

text \<open>
  C4, as the code has it. The scan ends at an index \<open>i\<close> between \<open>code_size\<close> and
  \<open>code_size + 32\<close>; the padded code has \<open>max code_size i + 1\<close> bytes, starts with the
  bytes of the code, and has a STOP byte at \<open>code_size\<close> and at \<open>i\<close>, its last byte. The
  bytes strictly between the two are never written: they are the missing immediate data
  of a PUSH at the end of the code.
\<close>

theorem analyze_padded_code:
  "length code \<le> scan_end code \<and> scan_end code \<le> length code + 32
   \<and> length (padded_code (analyze code)) = max (length code) (scan_end code) + 1
   \<and> (\<forall>j<length code. padded_code (analyze code) ! j = Some (code ! j))
   \<and> padded_code (analyze code) ! length code = Some OP_STOP
   \<and> padded_code (analyze code) ! scan_end code = Some OP_STOP
   \<and> (\<forall>j. length code < j \<and> j < scan_end code \<longrightarrow> padded_code (analyze code) ! j = None)"
proof -
  note b = scan_end_bounds [of code]
  have l: "length (padded_code (analyze code)) = max (length code) (scan_end code) + 1"
    using b by (simp add: padded_code_eq max_def)
  have c: "\<forall>j<length code. padded_code (analyze code) ! j = Some (code ! j)"
    using b by (auto simp: padded_code_eq nth_list_update nth_append)
  have s1: "padded_code (analyze code) ! length code = Some OP_STOP"
    using b by (simp add: padded_code_eq nth_list_update)
  have s2: "padded_code (analyze code) ! scan_end code = Some OP_STOP"
    using b by (simp add: padded_code_eq nth_list_update)
  have u: "\<forall>j. length code < j \<and> j < scan_end code \<longrightarrow> padded_code (analyze code) ! j = None"
    using b by (auto simp: padded_code_eq nth_list_update nth_append)
  from b l c s1 s2 u show ?thesis by blast
qed

theorem analyze_padded_code_witness:
  "scan_end [0x61] = 3
   \<and> length (padded_code (analyze [0x61])) = 4
   \<and> padded_code (analyze [0x61]) ! 0 = Some 0x61
   \<and> padded_code (analyze [0x61]) ! 1 = Some OP_STOP
   \<and> padded_code (analyze [0x61]) ! 2 = None
   \<and> padded_code (analyze [0x61]) ! 3 = Some OP_STOP"
proof -
  let ?c = "[0x61] :: u8 list"
  note t = analyze_padded_code [of ?c]
  have e: "scan_end ?c = 3" by code_simp
  from t e have l: "length (padded_code (analyze ?c)) = 4" by simp
  from t have "\<forall>j<length ?c. padded_code (analyze ?c) ! j = Some (?c ! j)" by blast
  then have p0: "padded_code (analyze ?c) ! 0 = Some 0x61" by simp
  from t have p1: "padded_code (analyze ?c) ! 1 = Some OP_STOP" by simp
  from t e have p3: "padded_code (analyze ?c) ! 3 = Some OP_STOP" by simp
  from t have "\<forall>j. length ?c < j \<and> j < scan_end ?c \<longrightarrow> padded_code (analyze ?c) ! j = None"
    by blast
  from this [rule_format, of 2] e have p2: "padded_code (analyze ?c) ! 2 = None" by simp
  from e l p0 p1 p2 p3 show ?thesis by simp
qed

text \<open>
  The claim as written fails: for the code \<open>7f\<close> (a PUSH32 with no data) the byte at
  \<open>code_size + 1\<close> is not a STOP byte but uninitialised, and for the empty code the
  padded code has one byte, so the offset \<open>code_size + 1\<close> is outside it.
\<close>

theorem analyze_padded_code_counterexample:
  "padded_code (analyze [0x7f]) ! (length [0x7f :: u8] + 1) = None
   \<and> \<not> length ([] :: u8 list) + 1 < length (padded_code (analyze []))"
  by code_simp

section \<open>Termination of the baseline dispatch loop\<close>





































subsection \<open>A sub-call whose host credits gas\<close>

lemma dispatch_loop_step:
  "dispatch_loop tbl fns an pos state
    = (case dispatch_step tbl fns an pos state of
         Inl r \<Rightarrow> Some r
       | Inr (pos', state') \<Rightarrow> dispatch_loop tbl fns an pos' state')"
  by (subst dispatch_loop.simps)
     (simp add: dispatch_step_def split: sum.split prod.split option.split instr_kind.split)












text \<open>
  The table and routines of this loop keep to everything else: every defined opcode has
  its case and a base cost that is not negative, and PC, PUSH and JUMP move the position
  as the specification says. Only the gas fails to go down: the sub-call leaves more gas
  than the turn started with.
\<close>

lemma credit_table_defined:
  assumes "gas_cost (credit_table op) \<noteq> instr_undefined"
  shows "op = OP_STOP \<or> op = OP_JUMP \<or> op = OP_JUMPDEST \<or> op = OP_PUSH1 \<or> op = OP_POP
    \<or> op = OP_CALL"
  using assms by (auto simp: credit_table_def fragment_table_def split: if_splits)

lemma credit_advancement:
  "advancement_contract credit_table (credit_instructions (analyze code)) (analyze code)"
  unfolding advancement_contract_def
  using credit_table_defined
  by (auto simp: credit_table_def fragment_table_def credit_instructions_def
      fragment_instructions_def jump_def push_def Let_def instr_kind_def instr_undefined_def
      OP_STOP_def OP_JUMP_def OP_JUMPDEST_def OP_PUSH1_def OP_POP_def OP_CALL_def)

lemma credit_not_gas_decreases:
  "\<not> gas_decreases credit_table (credit_instructions analysis)"
proof
  assume "gas_decreases credit_table (credit_instructions analysis)"
  then have "gas_cost (credit_table OP_CALL) \<noteq> instr_undefined
      \<longrightarrow> 0 \<le> gas_left (charged credit_table OP_CALL (new_state 700))
      \<longrightarrow> instr_kind OP_CALL = Some K_status
      \<longrightarrow> fst (instr_status (credit_instructions analysis) OP_CALL
             (charged credit_table OP_CALL (new_state 700))) = EVMC_SUCCESS
      \<longrightarrow> gas_left (snd (instr_status (credit_instructions analysis) OP_CALL
             (charged credit_table OP_CALL (new_state 700)))) < gas_left (new_state 700)"
    unfolding gas_decreases_def by blast
  then show False
    by (simp add: credit_table_def credit_instructions_def charged_def call_def Let_def
        new_state_def instr_kind_def instr_undefined_def OP_CALL_def OP_POP_def)
qed

text \<open>
  With a host that reports no more gas than the budget it was given, the same sub-call
  leaves less gas than the turn started with.
\<close>

lemma call_within_budget_decreases:
  assumes "\<And>budget. host_gas_left budget \<le> budget"
  shows "gas_left (snd (call host_gas_left (charged credit_table OP_CALL state)))
    < gas_left state"
proof -
  have "gas_left (snd (call host_gas_left s)) \<le> gas_left s" for s
    using assms [of "min (uint (last (stack s))) (gas_left s - gas_left s div 64)"]
    by (simp add: call_def Let_def)
  from this [of "charged credit_table OP_CALL state"] show ?thesis
    by (simp add: charged_def credit_table_def)
qed




end
